theory Spec2Isabelle
  imports Main
begin

section \<open>Go values the controllers handle\<close>

subsection \<open>Errors\<close>

text \<open>
  A Go \<^verbatim>\<open>error\<close> is an interface value: \<^verbatim>\<open>nil\<close> or a value with a dynamic type.
  Three dynamic types occur in the two controllers: \<^verbatim>\<open>*planetscale.Error\<close> (the only one
  the assertion \<^verbatim>\<open>err.(*planetscale.Error)\<close> accepts), a plain message (\<^verbatim>\<open>errors.New\<close>, and
  any error of another package), and the wrapper \<^verbatim>\<open>errors.Wrap\<close> builds around a cause.
  \<^verbatim>\<open>nil\<close> is \<open>None\<close>. A typed nil pointer stored in the interface is not modelled.
\<close>

datatype ErrorCode =
  ErrInternal | ErrInvalid | ErrPermission | ErrNotFound | ErrRetry | ErrResponseMalformed

datatype error =
    PlanetScaleError ErrorCode string
  | ErrorString string
  | WithMessage error string

definition errors_New :: "string \<Rightarrow> error" where
  "errors_New msg = ErrorString msg"

fun errors_Wrap :: "error option \<Rightarrow> string \<Rightarrow> error option" where
  "errors_Wrap None msg = None"
| "errors_Wrap (Some err) msg = Some (WithMessage err msg)"

text \<open>The \<^verbatim>\<open>Error()\<close> method: a wrapper prints its message, a colon and its cause.\<close>

fun Error_text :: "error \<Rightarrow> string" where
  "Error_text (PlanetScaleError code msg) = msg"
| "Error_text (ErrorString msg) = msg"
| "Error_text (WithMessage cause msg) = msg @ '': '' @ Error_text cause"

text \<open>The constants of both packages; the last four are declared with the same text in each.\<close>

definition errNotDatabase :: string where
  "errNotDatabase = ''managed resource is not a Database custom resource''"

definition errNotPassword :: string where
  "errNotPassword = ''managed resource is not a Password custom resource''"

definition errTrackPCUsage :: string where
  "errTrackPCUsage = ''cannot track ProviderConfig usage''"

definition errGetPC :: string where
  "errGetPC = ''cannot get ProviderConfig''"

definition errGetCreds :: string where
  "errGetCreds = ''cannot get credentials''"

definition errNewClient :: string where
  "errNewClient = ''cannot create new Service''"

text \<open>
  \<^verbatim>\<open>pErr, ok := err.(*planetscale.Error); ok && pErr.Code == planetscale.ErrNotFound\<close>
\<close>

fun isNotFound :: "error option \<Rightarrow> bool" where
  "isNotFound (Some (PlanetScaleError code msg)) = (code = ErrNotFound)"
| "isNotFound (Some (ErrorString msg)) = False"
| "isNotFound (Some (WithMessage cause msg)) = False"
| "isNotFound None = False"

text \<open>A call either returns or panics (a nil pointer dereference).\<close>

datatype 'a outcome = Panicked | Returned 'a

subsection \<open>Managed resources\<close>

text \<open>
  The fields of the custom resources that the controllers read or write. The external name
  is the annotation \<^verbatim>\<open>crossplane.io/external-name\<close>; reading a missing key of a Go map
  gives the empty string.
\<close>

record object_meta =
  Name :: string
  Annotations :: "string \<rightharpoonup> string"

definition AnnotationKeyExternalName :: string where
  "AnnotationKeyExternalName = ''crossplane.io/external-name''"

definition GetExternalName :: "object_meta \<Rightarrow> string" where
  "GetExternalName o_meta =
     (case Annotations o_meta AnnotationKeyExternalName of None \<Rightarrow> [] | Some v \<Rightarrow> v)"

definition SetExternalName :: "object_meta \<Rightarrow> string \<Rightarrow> object_meta" where
  "SetExternalName o_meta v =
     o_meta\<lparr>Annotations := (Annotations o_meta)(AnnotationKeyExternalName \<mapsto> v)\<rparr>"

datatype ConditionType = TypeReady | TypeSynced

datatype ConditionStatus = ConditionTrue | ConditionFalse | ConditionUnknown

record Condition =
  cType :: ConditionType
  cStatus :: ConditionStatus
  LastTransitionTime :: nat
  Reason :: string
  Message :: string

text \<open>\<^verbatim>\<open>xpv1.Available()\<close>, stamped with the clock reading \<open>now\<close>.\<close>

definition Available :: "nat \<Rightarrow> Condition" where
  "Available now =
     \<lparr>cType = TypeReady, cStatus = ConditionTrue, LastTransitionTime = now,
      Reason = ''Available'', Message = []\<rparr>"

definition Condition_Equal :: "Condition \<Rightarrow> Condition \<Rightarrow> bool" where
  "Condition_Equal c d =
     (cType c = cType d \<and> cStatus c = cStatus d \<and> Reason c = Reason d \<and> Message c = Message d)"

text \<open>
  \<^verbatim>\<open>SetConditions\<close> for one new condition: a condition of the same type is replaced unless
  it is equal up to its time; when no condition has the type, the new one is appended.
\<close>

definition SetCondition :: "Condition list \<Rightarrow> Condition \<Rightarrow> Condition list" where
  "SetCondition cs new =
     (let cs' = map (\<lambda>existing.
                  if cType existing \<noteq> cType new then existing
                  else if Condition_Equal existing new then existing
                  else new) cs
      in if list_ex (\<lambda>existing. cType existing = cType new) cs then cs' else cs' @ [new])"

definition SetConditions :: "Condition list \<Rightarrow> Condition list \<Rightarrow> Condition list" where
  "SetConditions cs news = foldl SetCondition cs news"

record Reference =
  ref_Name :: string

text \<open>
  Both kinds have the same shape: metadata, a spec (the reference to the ProviderConfig, a
  pointer, and the parameters) and a status (the conditions and the observation).
\<close>

record 'p resource_spec =
  ProviderConfigReference :: "Reference option"
  ForProvider :: 'p

record 'o resource_status =
  Conditions :: "Condition list"
  AtProvider :: 'o

record ('p, 'o) custom_resource =
  ObjectMeta :: object_meta
  Spec :: "'p resource_spec"
  Status :: "'o resource_status"

record DatabaseParameters =
  db_Organization :: string
  Notes :: "string option"
  Region :: "string option"

record DatabaseObservation =
  State :: string

text \<open>
  The parameters and the observation of a Password as the controller uses them:
  \<^verbatim>\<open>Organization\<close>, \<^verbatim>\<open>Database\<close> (a pointer, which the controller dereferences) and
  \<^verbatim>\<open>Branch\<close> are read, \<^verbatim>\<open>ID\<close> is written. The type file beside the controller declares
  one placeholder field in each struct; the fields here are the ones the controller
  names. The Database kind's type file is likewise taken from the controller's accesses.
\<close>

record PasswordParameters =
  pw_Organization :: string
  pw_Database :: "string option"
  pw_Branch :: string

record PasswordObservation =
  ID :: string

type_synonym Database = "(DatabaseParameters, DatabaseObservation) custom_resource"
type_synonym Password = "(PasswordParameters, PasswordObservation) custom_resource"

text \<open>
  A \<^verbatim>\<open>resource.Managed\<close> interface value: a Database, a Password, or anything else
  (of which only the metadata is kept).
\<close>

datatype managed =
    DatabaseMR Database
  | PasswordMR Password
  | OtherMR object_meta

fun managed_meta :: "managed \<Rightarrow> object_meta" where
  "managed_meta (DatabaseMR cr) = ObjectMeta cr"
| "managed_meta (PasswordMR cr) = ObjectMeta cr"
| "managed_meta (OtherMR m) = m"

subsection \<open>The external API\<close>

text \<open>
  The requests, by position:
  GetDatabaseRequest Organization Database;
  CreateDatabaseRequest Organization Name Notes Region;
  DeleteDatabaseRequest Organization Database;
  GetDatabaseBranchPasswordRequest Organization Database Branch DisplayName PasswordId;
  DatabaseBranchPasswordRequest Organization Database Branch DisplayName;
  DeleteDatabaseBranchPasswordRequest Organization Database Branch DisplayName PasswordId.
\<close>

datatype api_call =
    GetDatabaseRequest string string
  | CreateDatabaseRequest string string string string
  | DeleteDatabaseRequest string string
  | GetDatabaseBranchPasswordRequest string string string string string
  | DatabaseBranchPasswordRequest string string string string
  | DeleteDatabaseBranchPasswordRequest string string string string string

text \<open>
  Of the library's response types, the fields the controllers read. \<^verbatim>\<open>Branch\<close> is a struct
  held by value, so reading through it cannot fault once the password pointer is non-nil.
\<close>

record ps_Database =
  ps_State :: string

definition DatabaseReady :: string where
  "DatabaseReady = ''ready''"

record DatabaseBranch =
  AccessHostURL :: string

record DatabaseBranchPassword =
  PublicID :: string
  pw_Name :: string
  PlainText :: string
  Branch :: DatabaseBranch

text \<open>
  The client of the external system answers each request with what the Go method returns:
  a pointer and an error for Get and Create, an error for Delete. Nothing ties the two
  components of an answer together.
\<close>

record planetscale_Client =
  Databases_Get :: "api_call \<Rightarrow> ps_Database option \<times> error option"
  Databases_Create :: "api_call \<Rightarrow> ps_Database option \<times> error option"
  Databases_Delete :: "api_call \<Rightarrow> error option"
  Passwords_Get :: "api_call \<Rightarrow> DatabaseBranchPassword option \<times> error option"
  Passwords_Create :: "api_call \<Rightarrow> DatabaseBranchPassword option \<times> error option"
  Passwords_Delete :: "api_call \<Rightarrow> error option"

record PlanetScaleService =
  pCLI :: "planetscale_Client option"

record external =
  service :: "PlanetScaleService option"

text \<open>\<^verbatim>\<open>c.service.pCLI\<close>: both are pointers.\<close>

definition service_pCLI :: "external \<Rightarrow> planetscale_Client option" where
  "service_pCLI c = (case service c of None \<Rightarrow> None | Some svc \<Rightarrow> pCLI svc)"

subsection \<open>What the reconciler gets back\<close>

text \<open>
  Of \<^verbatim>\<open>managed.ExternalObservation\<close> the two fields the controllers set; the others keep
  their zero values in every return. Connection details are a map from names to bytes.
\<close>

record ExternalObservation =
  ResourceExists :: bool
  ResourceUpToDate :: bool

record ExternalCreation =
  ConnectionDetails :: "string \<rightharpoonup> string"

record ExternalUpdate =
  upd_ConnectionDetails :: "string \<rightharpoonup> string"

text \<open>
  An operation gets the managed resource by pointer: besides its outcome, it leaves the
  resource as it mutated it, and the requests it sent to the external system, in order.
\<close>

record 'a effect =
  outcome :: "'a outcome"
  resource :: managed
  calls :: "api_call list"

section \<open>The connector\<close>

text \<open>
  The collaborators of \<^verbatim>\<open>Connect\<close>: the usage tracker, the Kubernetes client (which fills
  the ProviderConfig it is handed and returns an error), the credential extractor and the
  service factory. Each is a function of what \<^verbatim>\<open>Connect\<close> passes it; none of them is the
  external system.
\<close>

record CommonCredentials =
  Source :: string
  CommonCredentialSelectors :: string

record ProviderConfig =
  Credentials :: CommonCredentials

record connector =
  usage_Track :: "managed \<Rightarrow> error option"
  kube_Get :: "string \<Rightarrow> ProviderConfig \<times> error option"
  CommonCredentialExtractor :: "string \<Rightarrow> string \<Rightarrow> string \<times> error option"
  newServiceFn :: "string \<Rightarrow> PlanetScaleService option \<times> error option"

text \<open>
  What follows the kind check is the same text in both packages. The name of the
  ProviderConfig is read through the pointer \<^verbatim>\<open>GetProviderConfigReference\<close> returns,
  after the usage was tracked.
\<close>

definition connect_steps ::
  "connector \<Rightarrow> managed \<Rightarrow> Reference option \<Rightarrow> (external option \<times> error option) effect" where
  "connect_steps c mg pcref =
     (case usage_Track c mg of
        Some err \<Rightarrow>
          \<lparr>outcome = Returned (None, errors_Wrap (Some err) errTrackPCUsage),
           resource = mg, calls = []\<rparr>
      | None \<Rightarrow>
          (case pcref of
             None \<Rightarrow> \<lparr>outcome = Panicked, resource = mg, calls = []\<rparr>
           | Some r \<Rightarrow>
               (case kube_Get c (ref_Name r) of
                  (pc, Some err) \<Rightarrow>
                    \<lparr>outcome = Returned (None, errors_Wrap (Some err) errGetPC),
                     resource = mg, calls = []\<rparr>
                | (pc, None) \<Rightarrow>
                    (let cd = Credentials pc in
                     case CommonCredentialExtractor c (Source cd) (CommonCredentialSelectors cd) of
                       (data, Some err) \<Rightarrow>
                         \<lparr>outcome = Returned (None, errors_Wrap (Some err) errGetCreds),
                          resource = mg, calls = []\<rparr>
                     | (data, None) \<Rightarrow>
                         (case newServiceFn c data of
                            (svc, Some err) \<Rightarrow>
                              \<lparr>outcome = Returned (None, errors_Wrap (Some err) errNewClient),
                               resource = mg, calls = []\<rparr>
                          | (svc, None) \<Rightarrow>
                              \<lparr>outcome = Returned (Some \<lparr>service = svc\<rparr>, None),
                               resource = mg, calls = []\<rparr>)))))"

fun database_Connect ::
  "connector \<Rightarrow> managed \<Rightarrow> (external option \<times> error option) effect" where
  "database_Connect c (DatabaseMR cr) =
     connect_steps c (DatabaseMR cr) (ProviderConfigReference (Spec cr))"
| "database_Connect c mg =
     \<lparr>outcome = Returned (None, Some (errors_New errNotDatabase)), resource = mg, calls = []\<rparr>"

fun password_Connect ::
  "connector \<Rightarrow> managed \<Rightarrow> (external option \<times> error option) effect" where
  "password_Connect c (PasswordMR cr) =
     connect_steps c (PasswordMR cr) (ProviderConfigReference (Spec cr))"
| "password_Connect c mg =
     \<lparr>outcome = Returned (None, Some (errors_New errNotPassword)), resource = mg, calls = []\<rparr>"

section \<open>The database client\<close>

definition zero_observation :: ExternalObservation where
  "zero_observation = \<lparr>ResourceExists = False, ResourceUpToDate = False\<rparr>"

definition zero_creation :: ExternalCreation where
  "zero_creation = \<lparr>ConnectionDetails = Map.empty\<rparr>"

definition database_observed :: "nat \<Rightarrow> Database \<Rightarrow> ps_Database \<Rightarrow> Database" where
  "database_observed now cr db =
     (if ps_State db = DatabaseReady
      then cr\<lparr>Status := (Status cr)\<lparr>Conditions :=
             SetConditions (Conditions (Status cr)) [Available now]\<rparr>\<rparr>
      else cr)"

fun database_Observe ::
  "external \<Rightarrow> nat \<Rightarrow> managed \<Rightarrow> (ExternalObservation \<times> error option) effect" where
  "database_Observe c now (DatabaseMR cr) =
     (case service_pCLI c of
        None \<Rightarrow> \<lparr>outcome = Panicked, resource = DatabaseMR cr, calls = []\<rparr>
      | Some cli \<Rightarrow>
          (let req = GetDatabaseRequest (db_Organization (ForProvider (Spec cr)))
                       (GetExternalName (ObjectMeta cr))
           in case Databases_Get cli req of (db, err) \<Rightarrow>
             if isNotFound err
             then \<lparr>outcome = Returned (\<lparr>ResourceExists = False, ResourceUpToDate = False\<rparr>, None),
                   resource = DatabaseMR cr, calls = [req]\<rparr>
             else (case db of
                     None \<Rightarrow> \<lparr>outcome = Panicked, resource = DatabaseMR cr, calls = [req]\<rparr>
                   | Some d \<Rightarrow>
                       \<lparr>outcome = Returned (\<lparr>ResourceExists = True, ResourceUpToDate = True\<rparr>, None),
                        resource = DatabaseMR (database_observed now cr d), calls = [req]\<rparr>)))"
| "database_Observe c now mg =
     \<lparr>outcome = Returned (zero_observation, Some (errors_New errNotDatabase)),
      resource = mg, calls = []\<rparr>"

fun database_Create :: "external \<Rightarrow> managed \<Rightarrow> (ExternalCreation \<times> error option) effect" where
  "database_Create c (DatabaseMR cr) =
     (let notes = (case Notes (ForProvider (Spec cr)) of None \<Rightarrow> [] | Some n \<Rightarrow> n);
          region = (case Region (ForProvider (Spec cr)) of None \<Rightarrow> [] | Some r \<Rightarrow> r)
      in case service_pCLI c of
        None \<Rightarrow> \<lparr>outcome = Panicked, resource = DatabaseMR cr, calls = []\<rparr>
      | Some cli \<Rightarrow>
          (let req = CreateDatabaseRequest (db_Organization (ForProvider (Spec cr)))
                       (GetExternalName (ObjectMeta cr)) notes region
           in case Databases_Create cli req of
                (db, Some err) \<Rightarrow>
                  \<lparr>outcome = Returned (zero_creation, Some err),
                   resource = DatabaseMR cr, calls = [req]\<rparr>
              | (None, None) \<Rightarrow> \<lparr>outcome = Panicked, resource = DatabaseMR cr, calls = [req]\<rparr>
              | (Some d, None) \<Rightarrow>
                  \<lparr>outcome = Returned (\<lparr>ConnectionDetails = Map.empty\<rparr>, None),
                   resource = DatabaseMR (cr\<lparr>Status := (Status cr)\<lparr>AtProvider :=
                                (AtProvider (Status cr))\<lparr>State := ps_State d\<rparr>\<rparr>\<rparr>),
                   calls = [req]\<rparr>))"
| "database_Create c mg =
     \<lparr>outcome = Returned (zero_creation, Some (errors_New errNotDatabase)),
      resource = mg, calls = []\<rparr>"

definition database_Update :: "external \<Rightarrow> managed \<Rightarrow> (ExternalUpdate \<times> error option) effect" where
  "database_Update c mg =
     \<lparr>outcome = Returned (\<lparr>upd_ConnectionDetails = Map.empty\<rparr>, None),
      resource = mg, calls = []\<rparr>"

fun database_Delete :: "external \<Rightarrow> managed \<Rightarrow> (error option) effect" where
  "database_Delete c (DatabaseMR cr) =
     (case service_pCLI c of
        None \<Rightarrow> \<lparr>outcome = Panicked, resource = DatabaseMR cr, calls = []\<rparr>
      | Some cli \<Rightarrow>
          (let req = DeleteDatabaseRequest (db_Organization (ForProvider (Spec cr)))
                       (GetExternalName (ObjectMeta cr))
           in \<lparr>outcome = Returned (Databases_Delete cli req),
               resource = DatabaseMR cr, calls = [req]\<rparr>))"
| "database_Delete c mg =
     \<lparr>outcome = Returned (Some (errors_New errNotDatabase)), resource = mg, calls = []\<rparr>"

section \<open>The branch-password client\<close>

fun password_Observe ::
  "external \<Rightarrow> managed \<Rightarrow> (ExternalObservation \<times> error option) effect" where
  "password_Observe c (PasswordMR cr) =
     (case (service_pCLI c, pw_Database (ForProvider (Spec cr))) of
        (Some cli, Some database) \<Rightarrow>
          (let req = GetDatabaseBranchPasswordRequest (pw_Organization (ForProvider (Spec cr)))
                       database (pw_Branch (ForProvider (Spec cr))) (Name (ObjectMeta cr))
                       (GetExternalName (ObjectMeta cr))
           in case Passwords_Get cli req of (p, err) \<Rightarrow>
             if isNotFound err
             then \<lparr>outcome = Returned (\<lparr>ResourceExists = False, ResourceUpToDate = False\<rparr>, None),
                   resource = PasswordMR cr, calls = [req]\<rparr>
             else (case p of
                     None \<Rightarrow> \<lparr>outcome = Panicked, resource = PasswordMR cr, calls = [req]\<rparr>
                   | Some pw \<Rightarrow>
                       \<lparr>outcome = Returned
                          (\<lparr>ResourceExists = True,
                            ResourceUpToDate = (pw_Name pw \<noteq> Name (ObjectMeta cr))\<rparr>, err),
                        resource = PasswordMR cr, calls = [req]\<rparr>))
      | _ \<Rightarrow> \<lparr>outcome = Panicked, resource = PasswordMR cr, calls = []\<rparr>)"
| "password_Observe c mg =
     \<lparr>outcome = Returned (zero_observation, Some (errors_New errNotPassword)),
      resource = mg, calls = []\<rparr>"

fun password_Create :: "external \<Rightarrow> managed \<Rightarrow> (ExternalCreation \<times> error option) effect" where
  "password_Create c (PasswordMR cr) =
     (case (service_pCLI c, pw_Database (ForProvider (Spec cr))) of
        (Some cli, Some database) \<Rightarrow>
          (let req = DatabaseBranchPasswordRequest (pw_Organization (ForProvider (Spec cr)))
                       database (pw_Branch (ForProvider (Spec cr))) (Name (ObjectMeta cr))
           in case Passwords_Create cli req of
                (p, Some err) \<Rightarrow>
                  \<lparr>outcome = Returned (zero_creation, Some err),
                   resource = PasswordMR cr, calls = [req]\<rparr>
              | (None, None) \<Rightarrow> \<lparr>outcome = Panicked, resource = PasswordMR cr, calls = [req]\<rparr>
              | (Some pw, None) \<Rightarrow>
                  \<lparr>outcome = Returned
                     (\<lparr>ConnectionDetails =
                         [''host'' \<mapsto> AccessHostURL (Branch pw),
                          ''username'' \<mapsto> PublicID pw,
                          ''password'' \<mapsto> PlainText pw,
                          ''database'' \<mapsto> database]\<rparr>, None),
                   resource = PasswordMR
                     (cr\<lparr>ObjectMeta := SetExternalName (ObjectMeta cr) (PublicID pw),
                         Status := (Status cr)\<lparr>AtProvider :=
                           (AtProvider (Status cr))\<lparr>ID := PublicID pw\<rparr>\<rparr>\<rparr>),
                   calls = [req]\<rparr>)
      | _ \<Rightarrow> \<lparr>outcome = Panicked, resource = PasswordMR cr, calls = []\<rparr>)"
| "password_Create c mg =
     \<lparr>outcome = Returned (zero_creation, Some (errors_New errNotPassword)),
      resource = mg, calls = []\<rparr>"

definition password_Update :: "external \<Rightarrow> managed \<Rightarrow> (ExternalUpdate \<times> error option) effect" where
  "password_Update c mg =
     \<lparr>outcome = Returned (\<lparr>upd_ConnectionDetails = Map.empty\<rparr>, None),
      resource = mg, calls = []\<rparr>"

fun password_Delete :: "external \<Rightarrow> managed \<Rightarrow> (error option) effect" where
  "password_Delete c (PasswordMR cr) =
     (case (service_pCLI c, pw_Database (ForProvider (Spec cr))) of
        (Some cli, Some database) \<Rightarrow>
          (let req = DeleteDatabaseBranchPasswordRequest (pw_Organization (ForProvider (Spec cr)))
                       database (pw_Branch (ForProvider (Spec cr))) (Name (ObjectMeta cr))
                       (GetExternalName (ObjectMeta cr))
           in \<lparr>outcome = Returned (Passwords_Delete cli req),
               resource = PasswordMR cr, calls = [req]\<rparr>)
      | _ \<Rightarrow> \<lparr>outcome = Panicked, resource = PasswordMR cr, calls = []\<rparr>)"
| "password_Delete c mg =
     \<lparr>outcome = Returned (Some (errors_New errNotPassword)), resource = mg, calls = []\<rparr>"

section \<open>Concrete inputs\<close>

text \<open>
  A Database and a Password as the reconciler hands them over (the external name already
  initialised to the resource's name), and an external system that gives fixed answers.
\<close>

definition sample_database :: Database where
  "sample_database =
     \<lparr>ObjectMeta = \<lparr>Name = ''shop'', Annotations = [AnnotationKeyExternalName \<mapsto> ''shop'']\<rparr>,
      Spec = \<lparr>ProviderConfigReference = Some \<lparr>ref_Name = ''default''\<rparr>,
              ForProvider = \<lparr>db_Organization = ''acme'', Notes = None, Region = None\<rparr>\<rparr>,
      Status = \<lparr>Conditions = [], AtProvider = \<lparr>State = []\<rparr>\<rparr>\<rparr>"

definition sample_password :: Password where
  "sample_password =
     \<lparr>ObjectMeta = \<lparr>Name = ''app'', Annotations = [AnnotationKeyExternalName \<mapsto> ''app'']\<rparr>,
      Spec = \<lparr>ProviderConfigReference = Some \<lparr>ref_Name = ''default''\<rparr>,
              ForProvider = \<lparr>pw_Organization = ''acme'', pw_Database = Some ''shop'',
                             pw_Branch = ''main''\<rparr>\<rparr>,
      Status = \<lparr>Conditions = [], AtProvider = \<lparr>ID = []\<rparr>\<rparr>\<rparr>"

definition answering_client ::
  "ps_Database option \<times> error option \<Rightarrow> DatabaseBranchPassword option \<times> error option \<Rightarrow>
   error option \<Rightarrow> planetscale_Client" where
  "answering_client db pw del =
     \<lparr>Databases_Get = (\<lambda>req. db), Databases_Create = (\<lambda>req. db),
      Databases_Delete = (\<lambda>req. del),
      Passwords_Get = (\<lambda>req. pw), Passwords_Create = (\<lambda>req. pw),
      Passwords_Delete = (\<lambda>req. del)\<rparr>"

definition answering ::
  "ps_Database option \<times> error option \<Rightarrow> DatabaseBranchPassword option \<times> error option \<Rightarrow>
   error option \<Rightarrow> external" where
  "answering db pw del = \<lparr>service = Some \<lparr>pCLI = Some (answering_client db pw del)\<rparr>\<rparr>"

definition ready_database :: ps_Database where
  "ready_database = \<lparr>ps_State = ''ready''\<rparr>"

definition issued_password :: "string \<Rightarrow> DatabaseBranchPassword" where
  "issued_password display_name =
     \<lparr>PublicID = ''pw81'', pw_Name = display_name, PlainText = ''s3cret'',
      Branch = \<lparr>AccessHostURL = ''aws.connect.psdb.cloud''\<rparr>\<rparr>"

definition not_found :: error where
  "not_found = PlanetScaleError ErrNotFound ''Not Found''"

definition internal_error :: error where
  "internal_error = PlanetScaleError ErrInternal ''internal error''"

definition connector_answering ::
  "error option \<Rightarrow> error option \<Rightarrow> error option \<Rightarrow> error option \<Rightarrow> connector" where
  "connector_answering track get creds new =
     \<lparr>usage_Track = (\<lambda>mg. track),
      kube_Get = (\<lambda>name.
        (\<lparr>Credentials = \<lparr>Source = ''Secret'', CommonCredentialSelectors = ''token''\<rparr>\<rparr>, get)),
      CommonCredentialExtractor = (\<lambda>source selectors. (''pscale_tkn'', creds)),
      newServiceFn = (\<lambda>data.
        (Some \<lparr>pCLI = Some (answering_client (None, None) (None, None) None)\<rparr>, new))\<rparr>"

section \<open>Observe\<close>

text \<open>
  C5. For both clients, when the query Observe sends is answered with the not-found
  sentinel (a \<^verbatim>\<open>*planetscale.Error\<close> whose code is \<^verbatim>\<open>ErrNotFound\<close>), Observe returns an
  observation with \<^verbatim>\<open>ResourceExists = false\<close> and a nil error, whatever pointer came with
  the sentinel.
\<close>

theorem Observe_not_found_is_absent:
  "(service_pCLI c = Some cli \<and>
    snd (Databases_Get cli (GetDatabaseRequest (db_Organization (ForProvider (Spec crd)))
           (GetExternalName (ObjectMeta crd)))) = Some (PlanetScaleError ErrNotFound msg)
    \<longrightarrow> outcome (database_Observe c now (DatabaseMR crd)) =
          Returned (\<lparr>ResourceExists = False, ResourceUpToDate = False\<rparr>, None)) \<and>
   (service_pCLI c = Some cli \<and> pw_Database (ForProvider (Spec crp)) = Some database \<and>
    snd (Passwords_Get cli (GetDatabaseBranchPasswordRequest
           (pw_Organization (ForProvider (Spec crp))) database
           (pw_Branch (ForProvider (Spec crp))) (Name (ObjectMeta crp))
           (GetExternalName (ObjectMeta crp)))) = Some (PlanetScaleError ErrNotFound msg)
    \<longrightarrow> outcome (password_Observe c (PasswordMR crp)) =
          Returned (\<lparr>ResourceExists = False, ResourceUpToDate = False\<rparr>, None))"
  by (auto simp: Let_def split: prod.splits)

theorem Observe_not_found_is_absent_witness:
  "outcome (database_Observe (answering (None, Some not_found) (None, Some not_found) None) 0
     (DatabaseMR sample_database)) =
     Returned (\<lparr>ResourceExists = False, ResourceUpToDate = False\<rparr>, None) \<and>
   outcome (password_Observe (answering (None, Some not_found) (None, Some not_found) None)
     (PasswordMR sample_password)) =
     Returned (\<lparr>ResourceExists = False, ResourceUpToDate = False\<rparr>, None)"
  using Observe_not_found_is_absent
    [of "answering (None, Some not_found) (None, Some not_found) None"
        "answering_client (None, Some not_found) (None, Some not_found) None"
        sample_database "''Not Found''" 0 sample_password "''shop''"]
  by (simp add: answering_def answering_client_def service_pCLI_def not_found_def
      sample_database_def sample_password_def)

section \<open>Update\<close>

text \<open>
  C6. For both kinds, Update returns an empty \<^verbatim>\<open>ExternalUpdate\<close> and a nil error for every
  client and every managed resource, sends no request to the external system and leaves
  the resource as it was.
\<close>

theorem Update_is_a_successful_noop:
  "outcome (database_Update c mg) = Returned (\<lparr>upd_ConnectionDetails = Map.empty\<rparr>, None) \<and>
   calls (database_Update c mg) = [] \<and> resource (database_Update c mg) = mg \<and>
   outcome (password_Update c mg) = Returned (\<lparr>upd_ConnectionDetails = Map.empty\<rparr>, None) \<and>
   calls (password_Update c mg) = [] \<and> resource (password_Update c mg) = mg"
  by (simp add: database_Update_def password_Update_def)

text \<open>
  C10. Update makes no kind check: it succeeds for every managed resource, also for one
  that is not of the controller's kind, where Connect, Observe, Create and Delete of the
  same controller all return the kind error (\<^verbatim>\<open>errNotDatabase\<close>, \<^verbatim>\<open>errNotPassword\<close>).
\<close>

theorem Update_makes_no_kind_check:
  "outcome (database_Update c mg) = Returned (\<lparr>upd_ConnectionDetails = Map.empty\<rparr>, None) \<and>
   outcome (password_Update c mg) = Returned (\<lparr>upd_ConnectionDetails = Map.empty\<rparr>, None) \<and>
   ((\<forall>cr. mg \<noteq> DatabaseMR cr) \<longrightarrow>
      outcome (database_Connect k mg) = Returned (None, Some (ErrorString errNotDatabase)) \<and>
      outcome (database_Observe c now mg) =
        Returned (zero_observation, Some (ErrorString errNotDatabase)) \<and>
      outcome (database_Create c mg) = Returned (zero_creation, Some (ErrorString errNotDatabase)) \<and>
      outcome (database_Delete c mg) = Returned (Some (ErrorString errNotDatabase))) \<and>
   ((\<forall>cr. mg \<noteq> PasswordMR cr) \<longrightarrow>
      outcome (password_Connect k mg) = Returned (None, Some (ErrorString errNotPassword)) \<and>
      outcome (password_Observe c mg) =
        Returned (zero_observation, Some (ErrorString errNotPassword)) \<and>
      outcome (password_Create c mg) = Returned (zero_creation, Some (ErrorString errNotPassword)) \<and>
      outcome (password_Delete c mg) = Returned (Some (ErrorString errNotPassword)))"
  by (cases mg) (simp_all add: database_Update_def password_Update_def errors_New_def)

theorem Update_makes_no_kind_check_witness:
  "outcome (database_Update (answering (None, None) (None, None) None)
      (PasswordMR sample_password)) =
     Returned (\<lparr>upd_ConnectionDetails = Map.empty\<rparr>, None) \<and>
   outcome (database_Delete (answering (None, None) (None, None) None)
      (PasswordMR sample_password)) = Returned (Some (ErrorString errNotDatabase)) \<and>
   outcome (database_Connect (connector_answering None None None None)
      (PasswordMR sample_password)) = Returned (None, Some (ErrorString errNotDatabase)) \<and>
   outcome (password_Update (answering (None, None) (None, None) None)
      (DatabaseMR sample_database)) =
     Returned (\<lparr>upd_ConnectionDetails = Map.empty\<rparr>, None) \<and>
   outcome (password_Delete (answering (None, None) (None, None) None)
      (DatabaseMR sample_database)) = Returned (Some (ErrorString errNotPassword)) \<and>
   outcome (password_Connect (connector_answering None None None None)
      (DatabaseMR sample_database)) = Returned (None, Some (ErrorString errNotPassword))"
  using
    Update_makes_no_kind_check
      [of "answering (None, None) (None, None) None" "PasswordMR sample_password"
          "connector_answering None None None None" 0]
    Update_makes_no_kind_check
      [of "answering (None, None) (None, None) None" "DatabaseMR sample_database"
          "connector_answering None None None None" 0]
  by simp

section \<open>Observe: the up-to-date flag and query errors\<close>

text \<open>
  C1. The up-to-date flag of the branch-password client on a query that succeeded: the
  code sets it to "the observed display name differs from the resource's name". A password
  whose observed name is the resource's name is reported as not up to date, and one whose
  observed name differs is reported as up to date.
\<close>

theorem password_Observe_flag_is_inverted:
  "outcome (password_Observe (answering (None, None) (Some (issued_password ''app''), None) None)
      (PasswordMR sample_password)) =
     Returned (\<lparr>ResourceExists = True, ResourceUpToDate = False\<rparr>, None) \<and>
   outcome (password_Observe (answering (None, None) (Some (issued_password ''other''), None) None)
      (PasswordMR sample_password)) =
     Returned (\<lparr>ResourceExists = True, ResourceUpToDate = True\<rparr>, None)"
  by (simp add: answering_def answering_client_def service_pCLI_def issued_password_def
      sample_password_def)

text \<open>
  C2. A query error other than the not-found sentinel in the database client's Observe:
  with a database returned beside the error, Observe reports an existing, up-to-date
  resource and a nil error; with a nil database, it panics. The branch-password client
  returns the error when a password came with it, and panics when none did.
\<close>

theorem Observe_loses_the_query_error:
  "outcome (database_Observe (answering (Some ready_database, Some internal_error) (None, None) None)
      0 (DatabaseMR sample_database)) =
     Returned (\<lparr>ResourceExists = True, ResourceUpToDate = True\<rparr>, None) \<and>
   outcome (database_Observe (answering (None, Some internal_error) (None, None) None)
      0 (DatabaseMR sample_database)) = Panicked \<and>
   outcome (password_Observe (answering (None, None) (None, Some internal_error) None)
      (PasswordMR sample_password)) = Panicked \<and>
   outcome (password_Observe
      (answering (None, None) (Some (issued_password ''app''), Some internal_error) None)
      (PasswordMR sample_password)) =
     Returned (\<lparr>ResourceExists = True, ResourceUpToDate = False\<rparr>, Some internal_error)"
  by (simp add: answering_def answering_client_def service_pCLI_def issued_password_def
      sample_password_def sample_database_def internal_error_def)

text \<open>
  C9. The database client's Observe reads \<^verbatim>\<open>db.State\<close> on every path but the not-found one:
  when the query fails with any other error and returns a nil database, Observe has sent
  its one request and panics on the dereference.
\<close>

theorem database_Observe_dereferences_after_an_error:
  "outcome (database_Observe (answering (None, Some (ErrorString ''connection refused'')) (None, None) None)
      0 (DatabaseMR sample_database)) = Panicked \<and>
   calls (database_Observe (answering (None, Some (ErrorString ''connection refused'')) (None, None) None)
      0 (DatabaseMR sample_database)) = [GetDatabaseRequest ''acme'' ''shop'']"
  by (simp add: answering_def answering_client_def service_pCLI_def sample_database_def
      GetExternalName_def)

section \<open>Delete\<close>

text \<open>
  C3 (as stated). Delete on an external resource that is already absent: the external
  delete call answers with the not-found sentinel, and both clients return that error.
\<close>

theorem Delete_of_absent_resource_fails:
  "outcome (database_Delete (answering (None, None) (None, None) (Some not_found))
      (DatabaseMR sample_database)) = Returned (Some not_found) \<and>
   outcome (password_Delete (answering (None, None) (None, None) (Some not_found))
      (PasswordMR sample_password)) = Returned (Some not_found)"
  by (simp add: answering_def answering_client_def service_pCLI_def sample_database_def
      sample_password_def)

text \<open>
  C3 (amended). For both clients, Delete sends exactly one request to the external system,
  the delete request built from the resource, and returns the error of that call
  unchanged: nil when the call succeeds, and the not-found error itself when the external
  resource is already absent. The managed resource is left as it was.
\<close>

theorem Delete_returns_the_call_error:
  "(service_pCLI c = Some cli \<longrightarrow>
      outcome (database_Delete c (DatabaseMR crd)) =
        Returned (Databases_Delete cli (DeleteDatabaseRequest
          (db_Organization (ForProvider (Spec crd))) (GetExternalName (ObjectMeta crd)))) \<and>
      calls (database_Delete c (DatabaseMR crd)) =
        [DeleteDatabaseRequest
          (db_Organization (ForProvider (Spec crd))) (GetExternalName (ObjectMeta crd))] \<and>
      resource (database_Delete c (DatabaseMR crd)) = DatabaseMR crd) \<and>
   (service_pCLI c = Some cli \<and> pw_Database (ForProvider (Spec crp)) = Some database \<longrightarrow>
      outcome (password_Delete c (PasswordMR crp)) =
        Returned (Passwords_Delete cli (DeleteDatabaseBranchPasswordRequest
          (pw_Organization (ForProvider (Spec crp))) database
          (pw_Branch (ForProvider (Spec crp))) (Name (ObjectMeta crp))
          (GetExternalName (ObjectMeta crp)))) \<and>
      calls (password_Delete c (PasswordMR crp)) =
        [DeleteDatabaseBranchPasswordRequest
          (pw_Organization (ForProvider (Spec crp))) database
          (pw_Branch (ForProvider (Spec crp))) (Name (ObjectMeta crp))
          (GetExternalName (ObjectMeta crp))] \<and>
      resource (password_Delete c (PasswordMR crp)) = PasswordMR crp)"
  by (simp add: Let_def)

theorem Delete_returns_the_call_error_witness:
  "outcome (database_Delete (answering (None, None) (None, None) None)
      (DatabaseMR sample_database)) = Returned None \<and>
   calls (database_Delete (answering (None, None) (None, None) None)
      (DatabaseMR sample_database)) = [DeleteDatabaseRequest ''acme'' ''shop''] \<and>
   outcome (password_Delete (answering (None, None) (None, None) None)
      (PasswordMR sample_password)) = Returned None \<and>
   calls (password_Delete (answering (None, None) (None, None) None)
      (PasswordMR sample_password)) =
     [DeleteDatabaseBranchPasswordRequest ''acme'' ''shop'' ''main'' ''app'' ''app''] \<and>
   outcome (database_Delete (answering (None, None) (None, None) (Some not_found))
      (DatabaseMR sample_database)) = Returned (Some not_found) \<and>
   calls (database_Delete (answering (None, None) (None, None) (Some not_found))
      (DatabaseMR sample_database)) = [DeleteDatabaseRequest ''acme'' ''shop''] \<and>
   outcome (password_Delete (answering (None, None) (None, None) (Some not_found))
      (PasswordMR sample_password)) = Returned (Some not_found) \<and>
   calls (password_Delete (answering (None, None) (None, None) (Some not_found))
      (PasswordMR sample_password)) =
     [DeleteDatabaseBranchPasswordRequest ''acme'' ''shop'' ''main'' ''app'' ''app'']"
  using
    Delete_returns_the_call_error
      [of "answering (None, None) (None, None) None"
          "answering_client (None, None) (None, None) None"
          sample_database sample_password "''shop''"]
    Delete_returns_the_call_error
      [of "answering (None, None) (None, None) (Some not_found)"
          "answering_client (None, None) (None, None) (Some not_found)"
          sample_database sample_password "''shop''"]
  by (simp add: answering_def answering_client_def service_pCLI_def sample_password_def
      sample_database_def GetExternalName_def)

section \<open>Create\<close>

text \<open>
  C8 (as stated). A successful Create of the database client returns connection details
  with no entry at all.
\<close>

theorem database_Create_returns_no_details:
  "outcome (database_Create (answering (Some ready_database, None) (None, None) None)
      (DatabaseMR sample_database)) = Returned (\<lparr>ConnectionDetails = Map.empty\<rparr>, None)"
  by (simp add: answering_def answering_client_def service_pCLI_def sample_database_def)

text \<open>
  C8 (amended). Every successful Create of the branch-password client returns connection
  details with exactly the keys host, username, password and database: the branch's access
  host URL, the password's public ID, the plaintext password and the database name. Every
  successful Create of the database client returns an empty mapping.
\<close>

theorem Create_connection_details:
  "(outcome (database_Create c mg) = Returned (cre, None) \<longrightarrow>
      ConnectionDetails cre = Map.empty) \<and>
   (outcome (password_Create c mg) = Returned (cre, None) \<longrightarrow>
      dom (ConnectionDetails cre) = {''host'', ''username'', ''password'', ''database''}) \<and>
   (service_pCLI c = Some cli \<and> pw_Database (ForProvider (Spec crp)) = Some database \<and>
    Passwords_Create cli (DatabaseBranchPasswordRequest
      (pw_Organization (ForProvider (Spec crp))) database
      (pw_Branch (ForProvider (Spec crp))) (Name (ObjectMeta crp))) = (Some pw, None) \<longrightarrow>
      outcome (password_Create c (PasswordMR crp)) =
        Returned (\<lparr>ConnectionDetails =
                     [''host'' \<mapsto> AccessHostURL (Branch pw),
                      ''username'' \<mapsto> PublicID pw,
                      ''password'' \<mapsto> PlainText pw,
                      ''database'' \<mapsto> database]\<rparr>, None))"
  by (cases mg)
    (auto simp: Let_def zero_creation_def errors_New_def
      split: option.splits prod.splits if_splits)

theorem Create_connection_details_witness:
  "outcome (password_Create (answering (None, None) (Some (issued_password ''app''), None) None)
      (PasswordMR sample_password)) =
     Returned (\<lparr>ConnectionDetails =
                  [''host'' \<mapsto> ''aws.connect.psdb.cloud'', ''username'' \<mapsto> ''pw81'',
                   ''password'' \<mapsto> ''s3cret'', ''database'' \<mapsto> ''shop'']\<rparr>, None) \<and>
   dom [''host'' \<mapsto> ''aws.connect.psdb.cloud'', ''username'' \<mapsto> ''pw81'',
        ''password'' \<mapsto> ''s3cret'', ''database'' \<mapsto> ''shop''] =
     {''host'', ''username'', ''password'', ''database''} \<and>
   ConnectionDetails zero_creation = Map.empty \<and>
   outcome (database_Create (answering (Some ready_database, None) (None, None) None)
      (DatabaseMR sample_database)) = Returned (zero_creation, None)"
  using
    Create_connection_details
      [of "answering (None, None) (Some (issued_password ''app''), None) None"
          "PasswordMR sample_password"
          "\<lparr>ConnectionDetails =
              [''host'' \<mapsto> ''aws.connect.psdb.cloud'', ''username'' \<mapsto> ''pw81'',
               ''password'' \<mapsto> ''s3cret'', ''database'' \<mapsto> ''shop'']\<rparr>"
          "answering_client (None, None) (Some (issued_password ''app''), None) None"
          sample_password "''shop''" "issued_password ''app''"]
    Create_connection_details
      [of "answering (Some ready_database, None) (None, None) None"
          "DatabaseMR sample_database" zero_creation]
  by (simp add: answering_def answering_client_def service_pCLI_def sample_password_def
      sample_database_def issued_password_def zero_creation_def)

section \<open>The external name\<close>

lemma connect_steps_leaves_resource: "resource (connect_steps c mg r) = mg"
  by (simp add: connect_steps_def Let_def split: option.splits prod.splits)

lemma connect_steps_sends_nothing: "calls (connect_steps c mg r) = []"
  by (simp add: connect_steps_def Let_def split: option.splits prod.splits)

lemma database_observed_meta: "ObjectMeta (database_observed now cr d) = ObjectMeta cr"
  by (simp add: database_observed_def)

lemma GetExternalName_Set: "GetExternalName (SetExternalName m v) = v"
  by (simp add: GetExternalName_def SetExternalName_def)

text \<open>
  C4 (as stated). A Password whose external name is already set to \<open>app\<close>: a successful
  Create of the branch-password client replaces it with the public ID the external system
  returned.
\<close>

theorem password_Create_reassigns_external_name:
  "GetExternalName (managed_meta (PasswordMR sample_password)) = ''app'' \<and>
   GetExternalName (managed_meta (resource
     (password_Create (answering (None, None) (Some (issued_password ''app''), None) None)
        (PasswordMR sample_password)))) = ''pw81''"
  by (simp add: answering_def answering_client_def service_pCLI_def sample_password_def
      issued_password_def GetExternalName_def SetExternalName_def)

text \<open>
  C4 (amended). Connect, Observe, Update and Delete of both clients, and Create of the
  database client, never change the external name of the managed resource. Create of the
  branch-password client leaves it unchanged whenever it does not return success, and on
  success sets it to the public ID returned by the external system, whatever it was before.
\<close>

theorem external_name_changes_only_in_password_Create:
  "GetExternalName (managed_meta (resource (database_Connect k mg))) =
     GetExternalName (managed_meta mg) \<and>
   GetExternalName (managed_meta (resource (database_Observe c now mg))) =
     GetExternalName (managed_meta mg) \<and>
   GetExternalName (managed_meta (resource (database_Create c mg))) =
     GetExternalName (managed_meta mg) \<and>
   GetExternalName (managed_meta (resource (database_Update c mg))) =
     GetExternalName (managed_meta mg) \<and>
   GetExternalName (managed_meta (resource (database_Delete c mg))) =
     GetExternalName (managed_meta mg) \<and>
   GetExternalName (managed_meta (resource (password_Connect k mg))) =
     GetExternalName (managed_meta mg) \<and>
   GetExternalName (managed_meta (resource (password_Observe c mg))) =
     GetExternalName (managed_meta mg) \<and>
   GetExternalName (managed_meta (resource (password_Update c mg))) =
     GetExternalName (managed_meta mg) \<and>
   GetExternalName (managed_meta (resource (password_Delete c mg))) =
     GetExternalName (managed_meta mg) \<and>
   ((\<forall>cre. outcome (password_Create c mg) \<noteq> Returned (cre, None)) \<longrightarrow>
      GetExternalName (managed_meta (resource (password_Create c mg))) =
        GetExternalName (managed_meta mg)) \<and>
   (service_pCLI c = Some cli \<and> pw_Database (ForProvider (Spec crp)) = Some database \<and>
    Passwords_Create cli (DatabaseBranchPasswordRequest
      (pw_Organization (ForProvider (Spec crp))) database
      (pw_Branch (ForProvider (Spec crp))) (Name (ObjectMeta crp))) = (Some pw, None) \<longrightarrow>
      GetExternalName (managed_meta (resource (password_Create c (PasswordMR crp)))) =
        PublicID pw)"
  by (cases mg)
    (auto simp: Let_def connect_steps_leaves_resource database_observed_meta
      GetExternalName_Set database_Update_def password_Update_def
      split: option.splits prod.splits)

theorem external_name_changes_only_in_password_Create_witness:
  "GetExternalName (managed_meta (resource
     (password_Create (answering (None, None) (None, Some internal_error) None)
        (PasswordMR sample_password)))) = ''app'' \<and>
   GetExternalName (managed_meta (resource
     (password_Create (answering (None, None) (Some (issued_password ''db-pass''), None) None)
        (PasswordMR sample_password)))) = ''pw81'' \<and>
   GetExternalName (managed_meta (resource
     (database_Create (answering (Some ready_database, None) (None, None) None)
        (DatabaseMR sample_database)))) = ''shop''"
  using
    external_name_changes_only_in_password_Create
      [of "connector_answering None None None None" "PasswordMR sample_password"
          "answering (None, None) (None, Some internal_error) None" 0]
    external_name_changes_only_in_password_Create
      [of "connector_answering None None None None" "PasswordMR sample_password"
          "answering (None, None) (Some (issued_password ''db-pass''), None) None" 0
          "answering_client (None, None) (Some (issued_password ''db-pass''), None) None"
          sample_password "''shop''" "issued_password ''db-pass''"]
    external_name_changes_only_in_password_Create
      [of "connector_answering None None None None" "DatabaseMR sample_database"
          "answering (Some ready_database, None) (None, None) None" 0]
  by (simp add: answering_def answering_client_def service_pCLI_def sample_password_def
      sample_database_def issued_password_def GetExternalName_def)

section \<open>Connect\<close>

lemma connect_steps_track:
  "usage_Track c mg = Some e \<Longrightarrow>
   outcome (connect_steps c mg pcref) = Returned (None, Some (WithMessage e errTrackPCUsage))"
  by (simp add: connect_steps_def)

lemma connect_steps_get:
  "usage_Track c mg = None \<Longrightarrow> kube_Get c (ref_Name r) = (pc, Some e) \<Longrightarrow>
   outcome (connect_steps c mg (Some r)) = Returned (None, Some (WithMessage e errGetPC))"
  by (simp add: connect_steps_def)

lemma connect_steps_creds:
  "usage_Track c mg = None \<Longrightarrow> kube_Get c (ref_Name r) = (pc, None) \<Longrightarrow>
   CommonCredentialExtractor c (Source (Credentials pc))
     (CommonCredentialSelectors (Credentials pc)) = (data, Some e) \<Longrightarrow>
   outcome (connect_steps c mg (Some r)) = Returned (None, Some (WithMessage e errGetCreds))"
  by (simp add: connect_steps_def)

lemma connect_steps_new:
  "usage_Track c mg = None \<Longrightarrow> kube_Get c (ref_Name r) = (pc, None) \<Longrightarrow>
   CommonCredentialExtractor c (Source (Credentials pc))
     (CommonCredentialSelectors (Credentials pc)) = (data, None) \<Longrightarrow>
   newServiceFn c data = (svc, Some e) \<Longrightarrow>
   outcome (connect_steps c mg (Some r)) = Returned (None, Some (WithMessage e errNewClient))"
  by (simp add: connect_steps_def)

lemma Connect_sends_nothing:
  "calls (database_Connect c mg) = [] \<and> calls (password_Connect c mg) = []"
  by (cases mg) (simp_all add: connect_steps_sends_nothing)

lemma stage_tags_distinct:
  "distinct [errTrackPCUsage, errGetPC, errGetCreds, errNewClient]"
  by (simp add: errTrackPCUsage_def errGetPC_def errGetCreds_def errNewClient_def)

lemma stage_texts_differ:
  "Error_text (WithMessage e1 errTrackPCUsage) \<noteq> Error_text (WithMessage e2 errGetPC)"
  "Error_text (WithMessage e1 errTrackPCUsage) \<noteq> Error_text (WithMessage e2 errGetCreds)"
  "Error_text (WithMessage e1 errTrackPCUsage) \<noteq> Error_text (WithMessage e2 errNewClient)"
  "Error_text (WithMessage e1 errGetPC) \<noteq> Error_text (WithMessage e2 errGetCreds)"
  "Error_text (WithMessage e1 errGetPC) \<noteq> Error_text (WithMessage e2 errNewClient)"
  "Error_text (WithMessage e1 errGetCreds) \<noteq> Error_text (WithMessage e2 errNewClient)"
  by (simp_all add: errTrackPCUsage_def errGetPC_def errGetCreds_def errNewClient_def)

text \<open>
  C7. Connect of either controller sends no request to the external system. When usage
  tracking, the ProviderConfig fetch, the credential resolution or the service
  construction fails with an error \<open>e\<close>, Connect returns no client and \<open>e\<close> wrapped with
  \<^verbatim>\<open>errTrackPCUsage\<close>, \<^verbatim>\<open>errGetPC\<close>, \<^verbatim>\<open>errGetCreds\<close> or \<^verbatim>\<open>errNewClient\<close> respectively. The four
  messages are pairwise distinct, and so are the texts of errors wrapped at two different
  stages, whatever their causes.
\<close>

theorem Connect_failures_are_tagged_by_stage:
  "calls (database_Connect c mg) = [] \<and> calls (password_Connect c mg) = [] \<and>
   (usage_Track c mg = Some e \<longrightarrow>
      (mg = DatabaseMR crd \<longrightarrow> outcome (database_Connect c mg) =
         Returned (None, Some (WithMessage e errTrackPCUsage))) \<and>
      (mg = PasswordMR crp \<longrightarrow> outcome (password_Connect c mg) =
         Returned (None, Some (WithMessage e errTrackPCUsage)))) \<and>
   (usage_Track c mg = None \<and> kube_Get c (ref_Name r) = (pc, Some e) \<longrightarrow>
      (mg = DatabaseMR crd \<and> ProviderConfigReference (Spec crd) = Some r \<longrightarrow>
         outcome (database_Connect c mg) = Returned (None, Some (WithMessage e errGetPC))) \<and>
      (mg = PasswordMR crp \<and> ProviderConfigReference (Spec crp) = Some r \<longrightarrow>
         outcome (password_Connect c mg) = Returned (None, Some (WithMessage e errGetPC)))) \<and>
   (usage_Track c mg = None \<and> kube_Get c (ref_Name r) = (pc, None) \<and>
    CommonCredentialExtractor c (Source (Credentials pc))
      (CommonCredentialSelectors (Credentials pc)) = (data, Some e) \<longrightarrow>
      (mg = DatabaseMR crd \<and> ProviderConfigReference (Spec crd) = Some r \<longrightarrow>
         outcome (database_Connect c mg) = Returned (None, Some (WithMessage e errGetCreds))) \<and>
      (mg = PasswordMR crp \<and> ProviderConfigReference (Spec crp) = Some r \<longrightarrow>
         outcome (password_Connect c mg) = Returned (None, Some (WithMessage e errGetCreds)))) \<and>
   (usage_Track c mg = None \<and> kube_Get c (ref_Name r) = (pc, None) \<and>
    CommonCredentialExtractor c (Source (Credentials pc))
      (CommonCredentialSelectors (Credentials pc)) = (data, None) \<and>
    newServiceFn c data = (svc, Some e) \<longrightarrow>
      (mg = DatabaseMR crd \<and> ProviderConfigReference (Spec crd) = Some r \<longrightarrow>
         outcome (database_Connect c mg) = Returned (None, Some (WithMessage e errNewClient))) \<and>
      (mg = PasswordMR crp \<and> ProviderConfigReference (Spec crp) = Some r \<longrightarrow>
         outcome (password_Connect c mg) = Returned (None, Some (WithMessage e errNewClient)))) \<and>
   distinct [errTrackPCUsage, errGetPC, errGetCreds, errNewClient] \<and>
   Error_text (WithMessage e1 errTrackPCUsage) \<noteq> Error_text (WithMessage e2 errGetPC) \<and>
   Error_text (WithMessage e1 errTrackPCUsage) \<noteq> Error_text (WithMessage e2 errGetCreds) \<and>
   Error_text (WithMessage e1 errTrackPCUsage) \<noteq> Error_text (WithMessage e2 errNewClient) \<and>
   Error_text (WithMessage e1 errGetPC) \<noteq> Error_text (WithMessage e2 errGetCreds) \<and>
   Error_text (WithMessage e1 errGetPC) \<noteq> Error_text (WithMessage e2 errNewClient) \<and>
   Error_text (WithMessage e1 errGetCreds) \<noteq> Error_text (WithMessage e2 errNewClient)"
proof -
  note sent = Connect_sends_nothing [of c mg]
  have track: "usage_Track c mg = Some e \<longrightarrow>
      (mg = DatabaseMR crd \<longrightarrow> outcome (database_Connect c mg) =
         Returned (None, Some (WithMessage e errTrackPCUsage))) \<and>
      (mg = PasswordMR crp \<longrightarrow> outcome (password_Connect c mg) =
         Returned (None, Some (WithMessage e errTrackPCUsage)))"
    by (auto simp: connect_steps_track)
  have get: "usage_Track c mg = None \<and> kube_Get c (ref_Name r) = (pc, Some e) \<longrightarrow>
      (mg = DatabaseMR crd \<and> ProviderConfigReference (Spec crd) = Some r \<longrightarrow>
         outcome (database_Connect c mg) = Returned (None, Some (WithMessage e errGetPC))) \<and>
      (mg = PasswordMR crp \<and> ProviderConfigReference (Spec crp) = Some r \<longrightarrow>
         outcome (password_Connect c mg) = Returned (None, Some (WithMessage e errGetPC)))"
    by (auto simp: connect_steps_get)
  have creds: "usage_Track c mg = None \<and> kube_Get c (ref_Name r) = (pc, None) \<and>
    CommonCredentialExtractor c (Source (Credentials pc))
      (CommonCredentialSelectors (Credentials pc)) = (data, Some e) \<longrightarrow>
      (mg = DatabaseMR crd \<and> ProviderConfigReference (Spec crd) = Some r \<longrightarrow>
         outcome (database_Connect c mg) = Returned (None, Some (WithMessage e errGetCreds))) \<and>
      (mg = PasswordMR crp \<and> ProviderConfigReference (Spec crp) = Some r \<longrightarrow>
         outcome (password_Connect c mg) = Returned (None, Some (WithMessage e errGetCreds)))"
    by (auto simp: connect_steps_creds)
  have new: "usage_Track c mg = None \<and> kube_Get c (ref_Name r) = (pc, None) \<and>
    CommonCredentialExtractor c (Source (Credentials pc))
      (CommonCredentialSelectors (Credentials pc)) = (data, None) \<and>
    newServiceFn c data = (svc, Some e) \<longrightarrow>
      (mg = DatabaseMR crd \<and> ProviderConfigReference (Spec crd) = Some r \<longrightarrow>
         outcome (database_Connect c mg) = Returned (None, Some (WithMessage e errNewClient))) \<and>
      (mg = PasswordMR crp \<and> ProviderConfigReference (Spec crp) = Some r \<longrightarrow>
         outcome (password_Connect c mg) = Returned (None, Some (WithMessage e errNewClient)))"
    by (auto simp: connect_steps_new)
  from sent track get creds new stage_tags_distinct stage_texts_differ [of e1 e2]
  show ?thesis by (intro conjI) blast+
qed

theorem Connect_failures_are_tagged_by_stage_witness:
  "outcome (database_Connect (connector_answering (Some (ErrorString ''timeout'')) None None None)
      (DatabaseMR sample_database)) =
     Returned (None, Some (WithMessage (ErrorString ''timeout'') errTrackPCUsage)) \<and>
   outcome (database_Connect (connector_answering None (Some (ErrorString ''timeout'')) None None)
      (DatabaseMR sample_database)) =
     Returned (None, Some (WithMessage (ErrorString ''timeout'') errGetPC)) \<and>
   outcome (database_Connect (connector_answering None None (Some (ErrorString ''timeout'')) None)
      (DatabaseMR sample_database)) =
     Returned (None, Some (WithMessage (ErrorString ''timeout'') errGetCreds)) \<and>
   outcome (database_Connect (connector_answering None None None (Some (ErrorString ''timeout'')))
      (DatabaseMR sample_database)) =
     Returned (None, Some (WithMessage (ErrorString ''timeout'') errNewClient)) \<and>
   outcome (password_Connect (connector_answering (Some (ErrorString ''timeout'')) None None None)
      (PasswordMR sample_password)) =
     Returned (None, Some (WithMessage (ErrorString ''timeout'') errTrackPCUsage)) \<and>
   outcome (password_Connect (connector_answering None (Some (ErrorString ''timeout'')) None None)
      (PasswordMR sample_password)) =
     Returned (None, Some (WithMessage (ErrorString ''timeout'') errGetPC)) \<and>
   outcome (password_Connect (connector_answering None None (Some (ErrorString ''timeout'')) None)
      (PasswordMR sample_password)) =
     Returned (None, Some (WithMessage (ErrorString ''timeout'') errGetCreds)) \<and>
   outcome (password_Connect (connector_answering None None None (Some (ErrorString ''timeout'')))
      (PasswordMR sample_password)) =
     Returned (None, Some (WithMessage (ErrorString ''timeout'') errNewClient))"
proof -
  note at_sample = Connect_failures_are_tagged_by_stage
    [where e = "ErrorString ''timeout''" and crd = sample_database and crp = sample_password
       and r = "\<lparr>ref_Name = ''default''\<rparr>"
       and pc = "\<lparr>Credentials = \<lparr>Source = ''Secret'', CommonCredentialSelectors = ''token''\<rparr>\<rparr>"
       and data = "''pscale_tkn''"
       and svc = "Some \<lparr>pCLI = Some (answering_client (None, None) (None, None) None)\<rparr>"]
  note db = at_sample [where mg = "DatabaseMR sample_database"]
  note pw = at_sample [where mg = "PasswordMR sample_password"]
  have spec_refs:
    "ProviderConfigReference (Spec sample_database) = Some \<lparr>ref_Name = ''default''\<rparr>"
    "ProviderConfigReference (Spec sample_password) = Some \<lparr>ref_Name = ''default''\<rparr>"
    by (simp_all add: sample_database_def sample_password_def)
  show ?thesis
    using
      db [where c = "connector_answering (Some (ErrorString ''timeout'')) None None None"]
      db [where c = "connector_answering None (Some (ErrorString ''timeout'')) None None"]
      db [where c = "connector_answering None None (Some (ErrorString ''timeout'')) None"]
      db [where c = "connector_answering None None None (Some (ErrorString ''timeout''))"]
      pw [where c = "connector_answering (Some (ErrorString ''timeout'')) None None None"]
      pw [where c = "connector_answering None (Some (ErrorString ''timeout'')) None None"]
      pw [where c = "connector_answering None None (Some (ErrorString ''timeout'')) None"]
      pw [where c = "connector_answering None None None (Some (ErrorString ''timeout''))"]
    by (simp add: connector_answering_def spec_refs)
qed

end
